theory Spec2Isabelle
  imports Main
begin

section \<open>Error reporting: dbus/dbus-errors.c\<close>

subsection \<open>Data\<close>

text \<open>
  Addresses of error objects and of blocks handed out by the allocator.
\<close>

type_synonym addr = nat

text \<open>
  A non-null \<^verbatim>\<open>char *\<close>. \<open>Lit t\<close> points to text \<open>t\<close> that the error object does
  not own (a string literal, or text whose lifetime the caller guarantees); \<open>Buf a\<close>
  points to the block at address \<open>a\<close> obtained from \<^verbatim>\<open>dbus_malloc\<close>. A nullable
  pointer is an \<open>option\<close>, with \<open>None\<close> for \<^verbatim>\<open>NULL\<close>.
\<close>

datatype cstr = Lit string | Buf addr

text \<open>
  \<^verbatim>\<open>DBusRealError\<close>, field by field. The name is referenced, never copied, and is
  identified with the text it points to.
\<close>

record DBusRealError =
  name :: "string option"
  message :: "cstr option"
  const_message :: bool
  dummy2 :: bool
  dummy3 :: bool
  dummy4 :: bool
  dummy5 :: bool
  padding1 :: "addr option"

text \<open>
  The store: the error object found at each address (a \<^verbatim>\<open>DBusError *\<close> that is not
  \<^verbatim>\<open>NULL\<close> is an address; two pointers may be the same address), and the live
  blocks of the allocator with their contents.
\<close>

record memory =
  errs :: "addr \<Rightarrow> DBusRealError"
  blocks :: "addr \<rightharpoonup> string"

text \<open>
  Modelled from the spec: \<^verbatim>\<open>_dbus_assert\<close>, a macro of dbus-internals.h, which is
  not among the sources. Assertions are compiled in, and a violated condition is an
  assertion failure that ends the call (\<open>AssertFailed\<close>). The other way a call can go
  wrong instead of returning is \<open>InvalidFree\<close>: \<^verbatim>\<open>dbus_free\<close> applied to a pointer
  that is not a live block.
\<close>

datatype fault = AssertFailed | InvalidFree

text \<open>
  The \<^verbatim>\<open>DBUS_ERROR_*\<close> names are macros of dbus-errors.h, which is not among the
  sources: they are parameters of the model.
\<close>

record error_names =
  DBUS_ERROR_FAILED :: string
  DBUS_ERROR_NO_MEMORY :: string
  DBUS_ERROR_IO_ERROR :: string
  DBUS_ERROR_BAD_ADDRESS :: string
  DBUS_ERROR_NOT_SUPPORTED :: string
  DBUS_ERROR_LIMITS_EXCEEDED :: string
  DBUS_ERROR_ACCESS_DENIED :: string
  DBUS_ERROR_AUTH_FAILED :: string
  DBUS_ERROR_NO_SERVER :: string
  DBUS_ERROR_TIMEOUT :: string
  DBUS_ERROR_NO_NETWORK :: string
  DBUS_ERROR_ADDRESS_IN_USE :: string
  DBUS_ERROR_DISCONNECTED :: string
  DBUS_ERROR_INVALID_ARGS :: string
  DBUS_ERROR_NO_REPLY :: string
  DBUS_ERROR_FILE_NOT_FOUND :: string

subsection \<open>Operations\<close>

text \<open>\<^verbatim>\<open>message_from_error\<close>: the chain of \<^verbatim>\<open>strcmp\<close> tests, in the source's order.\<close>

definition message_from_error :: "error_names \<Rightarrow> string \<Rightarrow> string" where
  "message_from_error N error =
    (if error = DBUS_ERROR_FAILED N then ''Unknown error''
     else if error = DBUS_ERROR_NO_MEMORY N then ''Not enough memory available''
     else if error = DBUS_ERROR_IO_ERROR N then ''Error reading or writing data''
     else if error = DBUS_ERROR_BAD_ADDRESS N then ''Could not parse address''
     else if error = DBUS_ERROR_NOT_SUPPORTED N then ''Feature not supported''
     else if error = DBUS_ERROR_LIMITS_EXCEEDED N then ''Resource limits exceeded''
     else if error = DBUS_ERROR_ACCESS_DENIED N then ''Permission denied''
     else if error = DBUS_ERROR_AUTH_FAILED N then ''Could not authenticate to server''
     else if error = DBUS_ERROR_NO_SERVER N then ''No server available at address''
     else if error = DBUS_ERROR_TIMEOUT N then ''Connection timed out''
     else if error = DBUS_ERROR_NO_NETWORK N then ''Network unavailable''
     else if error = DBUS_ERROR_ADDRESS_IN_USE N then ''Address already in use''
     else if error = DBUS_ERROR_DISCONNECTED N then ''Disconnected.''
     else if error = DBUS_ERROR_INVALID_ARGS N then ''Invalid argumemts.''
     else if error = DBUS_ERROR_NO_REPLY N then ''Did not get a reply message.''
     else if error = DBUS_ERROR_FILE_NOT_FOUND N then ''File doesn't exist.''
     else error)"

text \<open>
  \<^verbatim>\<open>dbus_error_init\<close>. The assertion on the two struct sizes compares layouts and
  is taken to hold. The placeholder fields are left as they are.
\<close>

definition dbus_error_init :: "memory \<Rightarrow> addr option \<Rightarrow> fault + memory" where
  "dbus_error_init s error =
    (case error of
       None \<Rightarrow> Inl AssertFailed
     | Some p \<Rightarrow>
         Inr (s\<lparr>errs := (errs s)
                (p := (errs s p)\<lparr>name := None, message := None, const_message := True\<rparr>)\<rparr>))"

text \<open>
  Modelled from the spec: \<^verbatim>\<open>dbus_free\<close> of the process-level allocator
  (dbus-memory.c is not among the sources). It releases a live block, does nothing on
  \<^verbatim>\<open>NULL\<close>, and is invalid on any other pointer.
\<close>

definition dbus_free :: "memory \<Rightarrow> cstr option \<Rightarrow> fault + memory" where
  "dbus_free s ptr =
    (case ptr of
       None \<Rightarrow> Inr s
     | Some (Lit t) \<Rightarrow> Inl InvalidFree
     | Some (Buf a) \<Rightarrow>
         (case blocks s a of
            None \<Rightarrow> Inl InvalidFree
          | Some t \<Rightarrow> Inr (s\<lparr>blocks := (blocks s)(a := None)\<rparr>)))"

text \<open>
  \<^verbatim>\<open>dbus_error_free\<close>. The source reads \<^verbatim>\<open>real->const_message\<close> with no test of
  the pointer, so the argument is an address.
\<close>

definition dbus_error_free :: "memory \<Rightarrow> addr \<Rightarrow> fault + memory" where
  "dbus_error_free s p =
    (if \<not> const_message (errs s p)
     then (case dbus_free s (message (errs s p)) of
             Inl f \<Rightarrow> Inl f
           | Inr s1 \<Rightarrow> dbus_error_init s1 (Some p))
     else dbus_error_init s (Some p))"

text \<open>\<^verbatim>\<open>dbus_set_error_const\<close>: the early return on \<^verbatim>\<open>NULL\<close>, then the three assertions.\<close>

definition dbus_set_error_const ::
    "error_names \<Rightarrow> memory \<Rightarrow> addr option \<Rightarrow> string option \<Rightarrow> cstr option \<Rightarrow> fault + memory" where
  "dbus_set_error_const N s error nm msg =
    (case error of
       None \<Rightarrow> Inr s
     | Some p \<Rightarrow>
         if name (errs s p) \<noteq> None then Inl AssertFailed
         else if message (errs s p) \<noteq> None then Inl AssertFailed
         else (case nm of
                 None \<Rightarrow> Inl AssertFailed
               | Some n \<Rightarrow>
                   let m = (case msg of None \<Rightarrow> Lit (message_from_error N n) | Some m0 \<Rightarrow> m0)
                   in Inr (s\<lparr>errs := (errs s)
                        (p := (errs s p)\<lparr>name := Some n, message := Some m,
                                           const_message := True\<rparr>)\<rparr>)))"

text \<open>\<^verbatim>\<open>dbus_error_is_set\<close>: both assertions, then the test of the name.\<close>

definition dbus_error_is_set :: "memory \<Rightarrow> addr option \<Rightarrow> fault + bool" where
  "dbus_error_is_set s error =
    (case error of
       None \<Rightarrow> Inl AssertFailed
     | Some p \<Rightarrow>
         if (name (errs s p) \<noteq> None \<and> message (errs s p) \<noteq> None) \<or>
            (name (errs s p) = None \<and> message (errs s p) = None)
         then Inr (name (errs s p) \<noteq> None)
         else Inl AssertFailed)"

text \<open>
  \<^verbatim>\<open>dbus_move_error\<close>. The assertion evaluates \<^verbatim>\<open>dbus_error_is_set (dest)\<close> before
  \<^verbatim>\<open>dest\<close> is tested; \<^verbatim>\<open>*dest = *src\<close> copies the whole struct. The source is
  dereferenced with no test, so it is an address.
\<close>

definition dbus_move_error :: "memory \<Rightarrow> addr \<Rightarrow> addr option \<Rightarrow> fault + memory" where
  "dbus_move_error s src dest =
    (case dbus_error_is_set s dest of
       Inl f \<Rightarrow> Inl f
     | Inr is_set \<Rightarrow>
         if is_set then Inl AssertFailed
         else (case dest of
                 Some d \<Rightarrow>
                   (case dbus_error_free s d of
                      Inl f \<Rightarrow> Inl f
                    | Inr s1 \<Rightarrow>
                        dbus_error_init (s1\<lparr>errs := (errs s1)(d := errs s1 src)\<rparr>) (Some src))
               | None \<Rightarrow> dbus_error_free s src))"

text \<open>
  \<^verbatim>\<open>dbus_set_error\<close>. Two things come from outside the sources and are parameters:
  \<open>vfmt\<close>, the text that \<^verbatim>\<open>vsprintf\<close> renders from a format and the variadic
  arguments (\<^verbatim>\<open>vsnprintf\<close> measures the same text), and \<open>alloc\<close>, the pointer that
  \<^verbatim>\<open>dbus_malloc (message_length)\<close> returns (\<open>None\<close> when it returns \<^verbatim>\<open>NULL\<close>).
\<close>

definition dbus_set_error ::
    "error_names \<Rightarrow> (string \<Rightarrow> 'a \<Rightarrow> string) \<Rightarrow> addr option \<Rightarrow> memory \<Rightarrow> addr option \<Rightarrow>
     string option \<Rightarrow> string option \<Rightarrow> 'a \<Rightarrow> fault + memory" where
  "dbus_set_error N vfmt alloc s error nm format args =
    (case error of
       None \<Rightarrow> Inr s
     | Some p \<Rightarrow>
         if name (errs s p) \<noteq> None then Inl AssertFailed
         else if message (errs s p) \<noteq> None then Inl AssertFailed
         else (case nm of
                 None \<Rightarrow> Inl AssertFailed
               | Some n \<Rightarrow>
                   let fmt = (case format of None \<Rightarrow> message_from_error N n | Some f \<Rightarrow> f)
                   in (case alloc of
                         None \<Rightarrow>
                           dbus_set_error_const N s error (Some (DBUS_ERROR_NO_MEMORY N)) None
                       | Some a \<Rightarrow>
                           Inr (s\<lparr>errs := (errs s)
                                  (p := (errs s p)\<lparr>name := Some n, message := Some (Buf a),
                                                     const_message := False\<rparr>),
                                 blocks := (blocks s)(a \<mapsto> vfmt fmt args)\<rparr>))))"

subsection \<open>What the specification says of error objects\<close>

text \<open>
  The static fallback table as the specification lists it, name by name, over the same
  parameters. It is compared with \<open>message_from_error\<close> below.
\<close>

definition fallback_table :: "error_names \<Rightarrow> (string \<times> string) list" where
  "fallback_table N =
    [(DBUS_ERROR_FAILED N, ''Unknown error''),
     (DBUS_ERROR_NO_MEMORY N, ''Not enough memory available''),
     (DBUS_ERROR_IO_ERROR N, ''Error reading or writing data''),
     (DBUS_ERROR_BAD_ADDRESS N, ''Could not parse address''),
     (DBUS_ERROR_NOT_SUPPORTED N, ''Feature not supported''),
     (DBUS_ERROR_LIMITS_EXCEEDED N, ''Resource limits exceeded''),
     (DBUS_ERROR_ACCESS_DENIED N, ''Permission denied''),
     (DBUS_ERROR_AUTH_FAILED N, ''Could not authenticate to server''),
     (DBUS_ERROR_NO_SERVER N, ''No server available at address''),
     (DBUS_ERROR_TIMEOUT N, ''Connection timed out''),
     (DBUS_ERROR_NO_NETWORK N, ''Network unavailable''),
     (DBUS_ERROR_ADDRESS_IN_USE N, ''Address already in use''),
     (DBUS_ERROR_DISCONNECTED N, ''Disconnected.''),
     (DBUS_ERROR_INVALID_ARGS N, ''Invalid argumemts.''),
     (DBUS_ERROR_NO_REPLY N, ''Did not get a reply message.''),
     (DBUS_ERROR_FILE_NOT_FOUND N, ''File doesn't exist.'')]"

text \<open>The invariant of the data model: name and message both present or both absent.\<close>

definition name_message_paired :: "DBusRealError \<Rightarrow> bool" where
  "name_message_paired e = ((name e = None) = (message e = None))"

text \<open>
  An initialized error object: the invariant holds, and a message that is not marked
  constant is a live block of the allocator. These are the objects that
  \<open>dbus_error_init\<close>, \<open>dbus_set_error_const\<close> and \<open>dbus_set_error\<close> leave behind.
\<close>

definition initialized :: "memory \<Rightarrow> addr \<Rightarrow> bool" where
  "initialized s p =
    (name_message_paired (errs s p) \<and>
     (const_message (errs s p) \<or>
      (case message (errs s p) of
         Some (Buf a) \<Rightarrow> blocks s a \<noteq> None
       | Some (Lit t) \<Rightarrow> False
       | None \<Rightarrow> False)))"

subsection \<open>Concrete values for evaluation\<close>

definition sample_names :: error_names where
  "sample_names =
    \<lparr>DBUS_ERROR_FAILED = ''failed'', DBUS_ERROR_NO_MEMORY = ''no-memory'',
     DBUS_ERROR_IO_ERROR = ''io-error'', DBUS_ERROR_BAD_ADDRESS = ''bad-address'',
     DBUS_ERROR_NOT_SUPPORTED = ''not-supported'',
     DBUS_ERROR_LIMITS_EXCEEDED = ''limits-exceeded'',
     DBUS_ERROR_ACCESS_DENIED = ''access-denied'', DBUS_ERROR_AUTH_FAILED = ''auth-failed'',
     DBUS_ERROR_NO_SERVER = ''no-server'', DBUS_ERROR_TIMEOUT = ''timeout'',
     DBUS_ERROR_NO_NETWORK = ''no-network'', DBUS_ERROR_ADDRESS_IN_USE = ''address-in-use'',
     DBUS_ERROR_DISCONNECTED = ''disconnected'', DBUS_ERROR_INVALID_ARGS = ''invalid-args'',
     DBUS_ERROR_NO_REPLY = ''no-reply'', DBUS_ERROR_FILE_NOT_FOUND = ''file-not-found''\<rparr>"

definition empty_error :: DBusRealError where
  "empty_error =
    \<lparr>name = None, message = None, const_message = True, dummy2 = False, dummy3 = False,
     dummy4 = False, dummy5 = False, padding1 = None\<rparr>"

text \<open>A store in which every object has just been initialized and no block is live.\<close>

definition fresh_memory :: memory where
  "fresh_memory = \<lparr>errs = (\<lambda>p. empty_error), blocks = Map.empty\<rparr>"

text \<open>
  The same store after \<^verbatim>\<open>dbus_set_error\<close> has put an owned message into the
  object at address 1 (block 7 holds its text).
\<close>

definition owned_memory :: memory where
  "owned_memory =
    \<lparr>errs = (\<lambda>p. empty_error)
       (1 := empty_error\<lparr>name := Some ''io-error'', message := Some (Buf 7),
                          const_message := False\<rparr>),
     blocks = [7 \<mapsto> ''failed at step3'']\<rparr>"

section \<open>The daemon entry point: bus/main.c\<close>

subsection \<open>What the process does\<close>

text \<open>
  The observable actions of \<^verbatim>\<open>main\<close>, in order: text printed on standard output
  and on the error stream, the call \<^verbatim>\<open>_dbus_write (fd, text, 0, length)\<close> with the
  count it returned, \<^verbatim>\<open>_dbus_close\<close>, the installation of the handler for
  \<^verbatim>\<open>SIGTERM\<close>, and the calls into the bus instance.
\<close>

datatype event =
    Stdout string
  | Stderr string
  | Write int string int
  | Close int
  | SetSigtermHandler
  | LoopRun
  | ContextShutdown
  | ContextUnref

text \<open>
  How the process ends: \<^verbatim>\<open>exit\<close> or \<^verbatim>\<open>return\<close> with a status, a failed
  \<^verbatim>\<open>_dbus_assert\<close>, or never, when the event loop does not come back.
\<close>

datatype ending = Exit int | Abort | Blocked

type_synonym run = "event list \<times> ending"

text \<open>
  Everything \<^verbatim>\<open>main\<close> uses that is not among the sources is a parameter:
  the build-time constants; \<^verbatim>\<open>_DBUS_INT_MAX\<close>; \<open>mem_ok k\<close>, whether the \<open>k\<close>-th
  call of a text-buffer operation that can run out of memory (\<^verbatim>\<open>_dbus_string_init\<close>,
  \<^verbatim>\<open>_dbus_string_append\<close>) succeeds; \<^verbatim>\<open>_dbus_string_parse_int (str, start, &val, &end)\<close>,
  giving the value and the end position, or \<open>None\<close> for \<^verbatim>\<open>FALSE\<close>;
  \<^verbatim>\<open>bus_context_new\<close>, giving the message of the error it set, or the new context,
  identified with what \<^verbatim>\<open>bus_context_get_address\<close> returns for it; the count
  \<^verbatim>\<open>_dbus_write\<close> returns; the text of \<^verbatim>\<open>_dbus_strerror (errno)\<close> after a failed
  write; and whether \<^verbatim>\<open>bus_loop_run\<close> returns.
\<close>

record environment =
  DBUS_SYSTEM_CONFIG_FILE :: string
  DBUS_SESSION_CONFIG_FILE :: string
  VERSION :: string
  DBUS_INT_MAX :: int
  mem_ok :: "nat \<Rightarrow> bool"
  dbus_string_parse_int :: "string \<Rightarrow> nat \<Rightarrow> (int \<times> nat) option"
  bus_context_new :: "string \<Rightarrow> string + string option"
  dbus_write :: "int \<Rightarrow> string \<Rightarrow> int"
  dbus_strerror :: string
  bus_loop_run_returns :: bool

text \<open>
  The variables of the argument loop: the two buffers, the flag, the previous argument
  (\<open>None\<close> for \<^verbatim>\<open>NULL\<close>), and the number of fallible buffer calls made so far.
\<close>

record parse_state =
  config_file :: string
  addr_fd :: string
  print_address :: bool
  prev_arg :: "string option"
  calls :: nat

subsection \<open>Helpers of main.c\<close>

definition nl :: string where
  "nl = [CHR 0x0A]"

definition usage_text :: string where
  "usage_text =
    ''dbus-daemon-1 [--version] [--session] [--system] [--config-file=FILE] [--print-address[=descriptor]]'' @ nl"

text \<open>\<^verbatim>\<open>usage\<close>: the text on the error stream, then \<^verbatim>\<open>exit (1)\<close>.\<close>

definition usage :: run where
  "usage = ([Stderr usage_text], Exit 1)"

text \<open>\<^verbatim>\<open>version\<close>: the banner on standard output, then \<^verbatim>\<open>exit (0)\<close>.\<close>

definition version :: "environment \<Rightarrow> run" where
  "version E =
    ([Stdout (''D-BUS Message Bus Daemon '' @ VERSION E @ nl @
        ''Copyright (C) 2002, 2003 Red Hat, Inc., CodeFactory AB, and others'' @ nl @
        ''This is free software; see the source for copying conditions.'' @ nl @
        ''There is NO warranty; not even for MERCHANTABILITY or FITNESS FOR A PARTICULAR PURPOSE.'' @ nl)],
     Exit 0)"

text \<open>
  \<^verbatim>\<open>check_two_config_files\<close> and \<^verbatim>\<open>check_two_addr_descriptors\<close>: \<open>Some\<close> run
  when the process exits there, \<open>None\<close> when the function returns.
\<close>

definition check_two_config_files :: "string \<Rightarrow> string \<Rightarrow> run option" where
  "check_two_config_files cfg extra_arg =
    (if length cfg > 0
     then Some ([Stderr (''--'' @ extra_arg @ '' specified but configuration file '' @ cfg @
                         '' already requested'' @ nl)], Exit 1)
     else None)"

definition check_two_addr_descriptors :: "string \<Rightarrow> string \<Rightarrow> run option" where
  "check_two_addr_descriptors fd_text extra_arg =
    (if length fd_text > 0
     then Some ([Stderr (''--'' @ extra_arg @ '' specified but printing address to '' @ fd_text @
                         '' already requested'' @ nl)], Exit 1)
     else None)"

text \<open>
  Modelled from the spec: \<^verbatim>\<open>_dbus_string_append\<close> of the text-buffer utility
  (dbus-string.c is not among the sources). The \<open>k\<close>-th fallible buffer call appends
  the text when memory allows and reports failure otherwise.
\<close>

definition dbus_string_append :: "environment \<Rightarrow> nat \<Rightarrow> string \<Rightarrow> string \<Rightarrow> string option" where
  "dbus_string_append E k buf text = (if mem_ok E k then Some (buf @ text) else None)"

text \<open>\<^verbatim>\<open>strstr (arg, pat) == arg\<close>: the pattern occurs at the very start of the argument.\<close>

definition starts_with :: "string \<Rightarrow> string \<Rightarrow> bool" where
  "starts_with pat arg = (take (length pat) arg = pat)"

text \<open>\<^verbatim>\<open>strchr (arg, '=')\<close> followed by \<^verbatim>\<open>++\<close>: the text after the first equals sign.\<close>

definition after_equals :: "string \<Rightarrow> string" where
  "after_equals arg = tl (dropWhile (\<lambda>c. c \<noteq> CHR ''='') arg)"

text \<open>
  The body shared by the four branches that record a configuration file: the
  duplicate check with the branch's flag name, then the append, \<^verbatim>\<open>exit (1)\<close> when
  it fails.
\<close>

definition record_config_file ::
    "environment \<Rightarrow> parse_state \<Rightarrow> string \<Rightarrow> string \<Rightarrow> run + parse_state" where
  "record_config_file E st extra_arg text =
    (case check_two_config_files (config_file st) extra_arg of
       Some r \<Rightarrow> Inl r
     | None \<Rightarrow>
         (case dbus_string_append E (calls st) (config_file st) text of
            None \<Rightarrow> Inl ([], Exit 1)
          | Some buf \<Rightarrow> Inr (st\<lparr>config_file := buf, calls := Suc (calls st)\<rparr>)))"

text \<open>
  The body shared by the two branches that record a descriptor text: the duplicate
  check, the append, then \<^verbatim>\<open>print_address = TRUE\<close>.
\<close>

definition record_addr_fd :: "environment \<Rightarrow> parse_state \<Rightarrow> string \<Rightarrow> run + parse_state" where
  "record_addr_fd E st text =
    (case check_two_addr_descriptors (addr_fd st) ''print-address'' of
       Some r \<Rightarrow> Inl r
     | None \<Rightarrow>
         (case dbus_string_append E (calls st) (addr_fd st) text of
            None \<Rightarrow> Inl ([], Exit 1)
          | Some buf \<Rightarrow>
              Inr (st\<lparr>addr_fd := buf, print_address := True, calls := Suc (calls st)\<rparr>)))"

subsection \<open>The argument loop\<close>

text \<open>
  One iteration of the \<^verbatim>\<open>while\<close> loop: the chain of tests in the source's order,
  then \<^verbatim>\<open>prev_arg = arg\<close>.
\<close>

definition parse_arg :: "environment \<Rightarrow> parse_state \<Rightarrow> string \<Rightarrow> run + parse_state" where
  "parse_arg E st arg =
    (case
       (if arg = ''--help'' \<or> arg = ''-h'' \<or> arg = ''-?'' then Inl usage
        else if arg = ''--version'' then Inl (version E)
        else if arg = ''--system''
          then record_config_file E st ''system'' (DBUS_SYSTEM_CONFIG_FILE E)
        else if arg = ''--session''
          then record_config_file E st ''session'' (DBUS_SESSION_CONFIG_FILE E)
        else if starts_with ''--config-file='' arg
          then record_config_file E st ''config-file'' (after_equals arg)
        else if prev_arg st = Some ''--config-file''
          then record_config_file E st ''config-file'' arg
        else if arg = ''--config-file'' then Inr st
        else if starts_with ''--print-address='' arg
          then record_addr_fd E st (after_equals arg)
        else if prev_arg st = Some ''--print-address''
          then record_addr_fd E st arg
        else if arg = ''--print-address'' then Inr (st\<lparr>print_address := True\<rparr>)
        else Inl usage)
     of
       Inl r \<Rightarrow> Inl r
     | Inr st' \<Rightarrow> Inr (st'\<lparr>prev_arg := Some arg\<rparr>))"

text \<open>The loop over \<^verbatim>\<open>argv[1]\<close> to \<^verbatim>\<open>argv[argc - 1]\<close>, stopping at the first exit.\<close>

fun parse_args :: "environment \<Rightarrow> parse_state \<Rightarrow> string list \<Rightarrow> run + parse_state" where
  "parse_args E st [] = Inr st"
| "parse_args E st (arg # rest) =
    (case parse_arg E st arg of
       Inl r \<Rightarrow> Inl r
     | Inr st' \<Rightarrow> parse_args E st' rest)"

text \<open>
  The start of \<^verbatim>\<open>main\<close> up to the end of the loop: the two \<^verbatim>\<open>_dbus_string_init\<close>
  calls (\<^verbatim>\<open>return 1\<close> when one fails), the initial values, the loop from index 1.
\<close>

definition parse_command_line :: "environment \<Rightarrow> string list \<Rightarrow> run + parse_state" where
  "parse_command_line E argv =
    (if \<not> mem_ok E 0 then Inl ([], Exit 1)
     else if \<not> mem_ok E 1 then Inl ([], Exit 1)
     else parse_args E
            \<lparr>config_file = [], addr_fd = [], print_address = False, prev_arg = None, calls = 2\<rparr>
            (drop 1 argv))"

subsection \<open>After the loop\<close>

text \<open>The diagnostic of an invalid descriptor text, then \<^verbatim>\<open>exit (1)\<close>.\<close>

definition invalid_file_descriptor :: "string \<Rightarrow> run" where
  "invalid_file_descriptor fd_text =
    ([Stderr (''Invalid file descriptor: '' @ [CHR 0x22] @ fd_text @ [CHR 0x22] @ nl)], Exit 1)"

text \<open>
  The value of \<^verbatim>\<open>print_addr_fd\<close>: \<open>-1\<close>, or 1 when publication was requested,
  or the parsed value of a descriptor text that is not empty. The value passes the
  range test before it is narrowed to \<^verbatim>\<open>int\<close>, so it is kept as it is.
\<close>

definition resolve_print_addr_fd :: "environment \<Rightarrow> parse_state \<Rightarrow> run + int" where
  "resolve_print_addr_fd E st =
    (if print_address st
     then (if length (addr_fd st) > 0
           then (case dbus_string_parse_int E (addr_fd st) 0 of
                   None \<Rightarrow> Inl (invalid_file_descriptor (addr_fd st))
                 | Some (val, end_pos) \<Rightarrow>
                     if end_pos \<noteq> length (addr_fd st) \<or> val < 0 \<or> val > DBUS_INT_MAX E
                     then Inl (invalid_file_descriptor (addr_fd st))
                     else Inr val)
           else Inr 1)
     else Inr (- 1))"

text \<open>
  The block that publishes the address, entered when \<^verbatim>\<open>print_addr_fd >= 0\<close>; \<open>k\<close>
  counts the fallible buffer calls made before it. \<open>Inl\<close> when the process ends
  there, \<open>Inr\<close> with the actions performed otherwise.
\<close>

definition publish_address ::
    "environment \<Rightarrow> nat \<Rightarrow> int \<Rightarrow> string option \<Rightarrow> run + event list" where
  "publish_address E k fd a =
    (case a of
       None \<Rightarrow> Inl ([], Abort)
     | Some address \<Rightarrow>
         if \<not> mem_ok E k then Inl ([], Exit 1)
         else (case dbus_string_append E (k + 1) [] address of
                 None \<Rightarrow> Inl ([], Exit 1)
               | Some buf1 \<Rightarrow>
                   (case dbus_string_append E (k + 2) buf1 nl of
                      None \<Rightarrow> Inl ([], Exit 1)
                    | Some addr_text \<Rightarrow>
                        let bytes = int (length addr_text);
                            written = dbus_write E fd addr_text
                        in if written \<noteq> bytes
                           then Inl ([Write fd addr_text written,
                                      Stderr (''Failed to print message bus address: '' @
                                              dbus_strerror E @ nl)], Exit 1)
                           else Inr ([Write fd addr_text written] @
                                     (if fd > 2 then [Close fd] else [])))))"

text \<open>
  The end of \<^verbatim>\<open>main\<close>: the handler for \<^verbatim>\<open>SIGTERM\<close>, the event loop, and when the
  loop returns the shutdown, the release and \<^verbatim>\<open>return 0\<close> (the branch on
  \<^verbatim>\<open>got_sighup\<close> is empty). The debugging output of \<^verbatim>\<open>_dbus_verbose\<close> is left out.
\<close>

definition run_bus :: "environment \<Rightarrow> run" where
  "run_bus E =
    (if bus_loop_run_returns E
     then ([SetSigtermHandler, LoopRun, ContextShutdown, ContextUnref], Exit 0)
     else ([SetSigtermHandler, LoopRun], Blocked))"

text \<open>\<^verbatim>\<open>main\<close>, with \<open>argv\<close> holding \<^verbatim>\<open>argv[0]\<close> to \<^verbatim>\<open>argv[argc - 1]\<close>.\<close>

definition main :: "environment \<Rightarrow> string list \<Rightarrow> run" where
  "main E argv =
    (case parse_command_line E argv of
       Inl r \<Rightarrow> r
     | Inr st \<Rightarrow>
         if length (config_file st) = 0
         then ([Stderr (''No configuration file specified.'' @ nl), Stderr usage_text], Exit 1)
         else (case resolve_print_addr_fd E st of
                 Inl r \<Rightarrow> r
               | Inr print_addr_fd \<Rightarrow>
                   (case bus_context_new E (config_file st) of
                      Inl msg \<Rightarrow>
                        ([Stderr (''Failed to start message bus: '' @ msg @ nl)], Exit 1)
                    | Inr context \<Rightarrow>
                        (case (if print_addr_fd \<ge> 0
                               then publish_address E (calls st) print_addr_fd context
                               else Inr [])
                         of
                           Inl r \<Rightarrow> r
                         | Inr evs \<Rightarrow> (evs @ fst (run_bus E), snd (run_bus E))))))"

subsection \<open>What the specification says of the argument grammar\<close>

text \<open>
  The forms of an argument that the chain of \<open>parse_arg\<close> tests before it looks at
  a previous \<^verbatim>\<open>--print-address\<close>: the flags of the grammar and the one-token forms
  with an equals sign.
\<close>

definition tested_before_descriptor :: "string \<Rightarrow> bool" where
  "tested_before_descriptor arg =
    (arg = ''--help'' \<or> arg = ''-h'' \<or> arg = ''-?'' \<or> arg = ''--version'' \<or>
     arg = ''--system'' \<or> arg = ''--session'' \<or> starts_with ''--config-file='' arg \<or>
     arg = ''--config-file'' \<or> starts_with ''--print-address='' arg)"

subsection \<open>A concrete environment for evaluation\<close>

text \<open>
  A parser for the sample environment: the decimal digits at the given position, their
  value and where they end, \<open>None\<close> when there is none.
\<close>

definition sample_parse_int :: "string \<Rightarrow> nat \<Rightarrow> (int \<times> nat) option" where
  "sample_parse_int str start =
    (let ds = takeWhile (\<lambda>c. c \<in> set ''0123456789'') (drop start str)
     in if ds = [] then None
        else Some (foldl (\<lambda>v c. 10 * v + (of_char c - 48)) 0 ds, start + length ds))"

text \<open>
  Memory never runs out, the bus listens on \<^verbatim>\<open>unix:path=/tmp/bus\<close>, every write
  is complete, and the event loop returns.
\<close>

definition sample_env :: environment where
  "sample_env =
    \<lparr>DBUS_SYSTEM_CONFIG_FILE = ''/etc/dbus-1/system.conf'',
     DBUS_SESSION_CONFIG_FILE = ''/etc/dbus-1/session.conf'',
     VERSION = ''0.11'',
     DBUS_INT_MAX = 2147483647,
     mem_ok = (\<lambda>k. True),
     dbus_string_parse_int = sample_parse_int,
     bus_context_new = (\<lambda>cfg. Inr (Some ''unix:path=/tmp/bus'')),
     dbus_write = (\<lambda>fd text. int (length text)),
     dbus_strerror = ''Bad file descriptor'',
     bus_loop_run_returns = True\<rparr>"

text \<open>
  The sample environment with memory running out: the first three fallible buffer
  calls succeed and every later one fails.
\<close>

definition low_memory_env :: environment where
  "low_memory_env = sample_env\<lparr>mem_ok := (\<lambda>k. k < 3)\<rparr>"

section \<open>Properties of the error module\<close>

subsection \<open>Move with an absent destination\<close>

text \<open>
  C1. Move with an absent destination. The source asserts
  \<^verbatim>\<open>!dbus_error_is_set (dest)\<close> first, and \<^verbatim>\<open>dbus_error_is_set\<close> asserts that its
  argument is not \<^verbatim>\<open>NULL\<close>: for every store and every source object the call ends
  in an assertion failure, before the branch that would free the source is reached.
\<close>

theorem move_error_null_dest_asserts:
  "dbus_move_error s src None = Inl AssertFailed"
  by (simp add: dbus_move_error_def dbus_error_is_set_def)

text \<open>Evaluation of C1 at a concrete store: the object at address 1 holds an owned message.\<close>

theorem move_error_null_dest_asserts_witness:
  "dbus_move_error owned_memory 1 None = Inl AssertFailed"
  by (rule move_error_null_dest_asserts)

subsection \<open>An absent error object\<close>

text \<open>
  C9. With an absent error object, Set-constant and Set-formatted return at once with
  the store as it was, whatever the name, message, format, arguments and allocator
  outcome are.
\<close>

theorem set_error_null_object_noop:
  "dbus_set_error_const N s None nm msg = Inr s \<and>
   dbus_set_error N vfmt alloc s None nm' format args = Inr s"
  by (simp add: dbus_set_error_const_def dbus_set_error_def)

theorem set_error_null_object_noop_witness:
  "dbus_set_error_const sample_names owned_memory None None (Some (Lit ''text'')) = Inr owned_memory \<and>
   dbus_set_error sample_names (\<lambda>f (a::string). f @ a) None owned_memory None (Some ''io-error'')
     (Some ''failed at '') ''step3'' = Inr owned_memory"
  by (rule set_error_null_object_noop)

subsection \<open>The fallback table\<close>

lemma message_from_error_map_of:
  "message_from_error N n = (case map_of (fallback_table N) n of Some t \<Rightarrow> t | None \<Rightarrow> n)"
  by (simp add: message_from_error_def fallback_table_def)

lemma set_error_const_on_empty:
  assumes "name (errs s p) = None" and "message (errs s p) = None"
  shows "dbus_set_error_const N s (Some p) (Some n) None =
         Inr (s\<lparr>errs := (errs s)
                (p := (errs s p)\<lparr>name := Some n, message := Some (Lit (message_from_error N n)),
                                   const_message := True\<rparr>)\<rparr>)"
  using assms by (simp add: dbus_set_error_const_def)

text \<open>
  C3. Set-constant on an empty object with an absent message. The table's names being
  pairwise different, for every entry of the table the call stores the entry's name and
  a borrowed message that is exactly the entry's text (so \<open>''Invalid argumemts.''\<close>,
  misspelled, for the invalid-args name); for every name that is not in the table the
  stored message is the name itself.
\<close>

theorem set_error_const_fallback_message:
  assumes empty: "name (errs s p) = None" "message (errs s p) = None"
      and keys: "distinct (map fst (fallback_table N))"
  shows "(\<forall>(k, t) \<in> set (fallback_table N).
            dbus_set_error_const N s (Some p) (Some k) None =
            Inr (s\<lparr>errs := (errs s)
                   (p := (errs s p)\<lparr>name := Some k, message := Some (Lit t),
                                      const_message := True\<rparr>)\<rparr>)) \<and>
         (\<forall>k. k \<notin> fst ` set (fallback_table N) \<longrightarrow>
            dbus_set_error_const N s (Some p) (Some k) None =
            Inr (s\<lparr>errs := (errs s)
                   (p := (errs s p)\<lparr>name := Some k, message := Some (Lit k),
                                      const_message := True\<rparr>)\<rparr>))"
proof (intro conjI ballI allI impI)
  fix x assume x: "x \<in> set (fallback_table N)"
  obtain k t where kt: "x = (k, t)" by (cases x)
  from x kt keys have "map_of (fallback_table N) k = Some t"
    by simp
  then have "message_from_error N k = t"
    by (simp add: message_from_error_map_of)
  with empty kt show "case x of (k, t) \<Rightarrow>
            dbus_set_error_const N s (Some p) (Some k) None =
            Inr (s\<lparr>errs := (errs s)
                   (p := (errs s p)\<lparr>name := Some k, message := Some (Lit t),
                                      const_message := True\<rparr>)\<rparr>)"
    by (simp add: set_error_const_on_empty)
next
  fix k assume "k \<notin> fst ` set (fallback_table N)"
  then have "map_of (fallback_table N) k = None"
    by (simp add: map_of_eq_None_iff)
  then have "message_from_error N k = k"
    by (simp add: message_from_error_map_of)
  with empty show "dbus_set_error_const N s (Some p) (Some k) None =
            Inr (s\<lparr>errs := (errs s)
                   (p := (errs s p)\<lparr>name := Some k, message := Some (Lit k),
                                      const_message := True\<rparr>)\<rparr>)"
    by (simp add: set_error_const_on_empty)
qed

lemma sample_names_distinct: "distinct (map fst (fallback_table sample_names))"
  by (simp add: fallback_table_def sample_names_def)

theorem set_error_const_fallback_message_witness:
  "name (errs fresh_memory 0) = None \<and> message (errs fresh_memory 0) = None \<and>
   distinct (map fst (fallback_table sample_names)) \<and>
   dbus_set_error_const sample_names fresh_memory (Some 0) (Some ''invalid-args'') None =
     Inr (fresh_memory\<lparr>errs := (errs fresh_memory)
        (0 := (errs fresh_memory 0)\<lparr>name := Some ''invalid-args'',
              message := Some (Lit ''Invalid argumemts.''), const_message := True\<rparr>)\<rparr>) \<and>
   dbus_set_error_const sample_names fresh_memory (Some 0) (Some ''my-own-error'') None =
     Inr (fresh_memory\<lparr>errs := (errs fresh_memory)
        (0 := (errs fresh_memory 0)\<lparr>name := Some ''my-own-error'',
              message := Some (Lit ''my-own-error''), const_message := True\<rparr>)\<rparr>)"
proof -
  have e1: "name (errs fresh_memory 0) = None" and e2: "message (errs fresh_memory 0) = None"
    by (simp_all add: fresh_memory_def empty_error_def)
  have d: "distinct (map fst (fallback_table sample_names))"
    by (rule sample_names_distinct)
  have m: "(''invalid-args'', ''Invalid argumemts.'') \<in> set (fallback_table sample_names)"
    by (simp add: fallback_table_def sample_names_def)
  have n: "''my-own-error'' \<notin> fst ` set (fallback_table sample_names)"
    by (simp add: fallback_table_def sample_names_def)
  note t = set_error_const_fallback_message [OF e1 e2 d]
  from t m have a: "dbus_set_error_const sample_names fresh_memory (Some 0) (Some ''invalid-args'') None =
     Inr (fresh_memory\<lparr>errs := (errs fresh_memory)
        (0 := (errs fresh_memory 0)\<lparr>name := Some ''invalid-args'',
              message := Some (Lit ''Invalid argumemts.''), const_message := True\<rparr>)\<rparr>)"
    by blast
  from t n have b: "dbus_set_error_const sample_names fresh_memory (Some 0) (Some ''my-own-error'') None =
     Inr (fresh_memory\<lparr>errs := (errs fresh_memory)
        (0 := (errs fresh_memory 0)\<lparr>name := Some ''my-own-error'',
              message := Some (Lit ''my-own-error''), const_message := True\<rparr>)\<rparr>)"
    by blast
  from e1 e2 d a b show ?thesis by simp
qed

subsection \<open>Allocation failure in Set-formatted\<close>

text \<open>
  C4. Set-formatted on an empty object, with a name, when \<^verbatim>\<open>dbus_malloc\<close> returns
  \<^verbatim>\<open>NULL\<close>: whatever the format and the arguments are, the call returns normally,
  it is the call of Set-constant with the out-of-memory name and no message, and it
  leaves the object set with that name and the table-substituted message, marked
  constant; no block is allocated. The substituted text is the table's out-of-memory
  text as soon as the out-of-memory name differs from the name tested before it.
\<close>

theorem set_error_alloc_failure_falls_back:
  assumes "name (errs s p) = None" and "message (errs s p) = None"
  shows "dbus_set_error N vfmt None s (Some p) (Some n) format args =
           dbus_set_error_const N s (Some p) (Some (DBUS_ERROR_NO_MEMORY N)) None \<and>
         dbus_set_error N vfmt None s (Some p) (Some n) format args =
           Inr (s\<lparr>errs := (errs s)
                  (p := (errs s p)\<lparr>name := Some (DBUS_ERROR_NO_MEMORY N),
                       message := Some (Lit (message_from_error N (DBUS_ERROR_NO_MEMORY N))),
                       const_message := True\<rparr>)\<rparr>) \<and>
         (DBUS_ERROR_NO_MEMORY N \<noteq> DBUS_ERROR_FAILED N \<longrightarrow>
            message_from_error N (DBUS_ERROR_NO_MEMORY N) = ''Not enough memory available'')"
  using assms by (simp add: dbus_set_error_def dbus_set_error_const_def message_from_error_def)

theorem set_error_alloc_failure_falls_back_witness:
  "name (errs fresh_memory 3) = None \<and> message (errs fresh_memory 3) = None \<and>
   dbus_set_error sample_names (\<lambda>f (a::string). f @ a) None fresh_memory (Some 3)
       (Some ''io-error'') (Some ''failed at '') ''step3'' =
     Inr (fresh_memory\<lparr>errs := (errs fresh_memory)
            (3 := (errs fresh_memory 3)\<lparr>name := Some ''no-memory'',
                 message := Some (Lit ''Not enough memory available''),
                 const_message := True\<rparr>)\<rparr>)"
proof -
  have e1: "name (errs fresh_memory 3) = None" and e2: "message (errs fresh_memory 3) = None"
    by (simp_all add: fresh_memory_def empty_error_def)
  have m: "message_from_error sample_names ''no-memory'' = ''Not enough memory available''"
    and k: "DBUS_ERROR_NO_MEMORY sample_names = ''no-memory''"
    by (simp_all add: message_from_error_def sample_names_def)
  have "dbus_set_error sample_names (\<lambda>f (a::string). f @ a) None fresh_memory (Some 3)
       (Some ''io-error'') (Some ''failed at '') ''step3'' =
     Inr (fresh_memory\<lparr>errs := (errs fresh_memory)
            (3 := (errs fresh_memory 3)\<lparr>name := Some ''no-memory'',
                 message := Some (Lit ''Not enough memory available''),
                 const_message := True\<rparr>)\<rparr>)"
    using set_error_alloc_failure_falls_back [OF e1 e2, of sample_names "\<lambda>f (a::string). f @ a"
      "''io-error''" "Some ''failed at ''" "''step3''", THEN conjunct2, THEN conjunct1]
    unfolding m k .
  with e1 e2 show ?thesis by simp
qed

subsection \<open>The invariant of the error object\<close>

lemma dbus_free_errs: "dbus_free s ptr = Inr s1 \<Longrightarrow> errs s1 = errs s"
  by (auto simp: dbus_free_def split: option.splits cstr.splits)

lemma init_keeps_pairing:
  assumes "\<forall>q. name_message_paired (errs s q)" and "dbus_error_init s error = Inr s'"
  shows "name_message_paired (errs s' q)"
  using assms by (auto simp: dbus_error_init_def name_message_paired_def split: option.splits)

lemma free_keeps_pairing:
  assumes "\<forall>q. name_message_paired (errs s q)" and "dbus_error_free s p = Inr s'"
  shows "name_message_paired (errs s' q)"
proof (cases "const_message (errs s p)")
  case True
  with assms show ?thesis
    by (simp add: dbus_error_free_def init_keeps_pairing)
next
  case False
  with assms(2) obtain s1 where f: "dbus_free s (message (errs s p)) = Inr s1"
    and i: "dbus_error_init s1 (Some p) = Inr s'"
    by (auto simp: dbus_error_free_def split: sum.splits)
  from f assms(1) have h: "\<forall>q. name_message_paired (errs s1 q)"
    by (simp add: dbus_free_errs)
  show ?thesis by (rule init_keeps_pairing [OF h i])
qed

lemma set_const_keeps_pairing:
  assumes "\<forall>q. name_message_paired (errs s q)"
      and "dbus_set_error_const N s error nm msg = Inr s'"
  shows "name_message_paired (errs s' q)"
  using assms
  by (auto simp: dbus_set_error_const_def name_message_paired_def Let_def
           split: option.splits if_splits)

lemma set_error_keeps_pairing:
  assumes "\<forall>q. name_message_paired (errs s q)"
      and "dbus_set_error N vfmt alloc s error nm format args = Inr s'"
  shows "name_message_paired (errs s' q)"
proof (cases alloc)
  case None
  with assms show ?thesis
    by (auto simp: dbus_set_error_def Let_def set_const_keeps_pairing
             split: option.splits if_splits)
next
  case (Some a)
  with assms show ?thesis
    by (auto simp: dbus_set_error_def name_message_paired_def Let_def
             split: option.splits if_splits)
qed

lemma move_keeps_pairing:
  assumes "\<forall>q. name_message_paired (errs s q)" and "dbus_move_error s src dest = Inr s'"
  shows "name_message_paired (errs s' q)"
proof (cases dest)
  case None
  with assms(2) show ?thesis
    by (simp add: dbus_move_error_def dbus_error_is_set_def)
next
  case (Some d)
  with assms(2) obtain s1 where f: "dbus_error_free s d = Inr s1"
    and i: "dbus_error_init (s1\<lparr>errs := (errs s1)(d := errs s1 src)\<rparr>) (Some src) = Inr s'"
    by (auto simp: dbus_move_error_def split: sum.splits if_splits)
  from assms(1) f have "\<forall>q. name_message_paired (errs s1 q)"
    by (simp add: free_keeps_pairing)
  then have h: "\<forall>q. name_message_paired (errs (s1\<lparr>errs := (errs s1)(d := errs s1 src)\<rparr>) q)"
    by simp
  show ?thesis by (rule init_keeps_pairing [OF h i])
qed

text \<open>
  C5. In a store where every error object has its name and message both present or both
  absent, each of Initialize, Set-constant, Set-formatted, Free and Move, when it returns,
  leaves a store where every error object has them both present or both absent.
\<close>

theorem operations_preserve_pairing:
  assumes "\<forall>q. name_message_paired (errs s q)"
  shows "(\<forall>s'. dbus_error_init s error = Inr s' \<longrightarrow> (\<forall>q. name_message_paired (errs s' q))) \<and>
         (\<forall>s'. dbus_set_error_const N s error nm msg = Inr s' \<longrightarrow>
                (\<forall>q. name_message_paired (errs s' q))) \<and>
         (\<forall>s'. dbus_set_error N vfmt alloc s error nm format args = Inr s' \<longrightarrow>
                (\<forall>q. name_message_paired (errs s' q))) \<and>
         (\<forall>s'. dbus_error_free s p = Inr s' \<longrightarrow> (\<forall>q. name_message_paired (errs s' q))) \<and>
         (\<forall>s'. dbus_move_error s src dest = Inr s' \<longrightarrow> (\<forall>q. name_message_paired (errs s' q)))"
  using assms
  by (blast intro: init_keeps_pairing set_const_keeps_pairing set_error_keeps_pairing
                   free_keeps_pairing move_keeps_pairing)

theorem operations_preserve_pairing_witness:
  "(\<forall>q. name_message_paired (errs owned_memory q)) \<and>
   dbus_move_error owned_memory 1 (Some 2) =
     Inr (owned_memory\<lparr>errs := (errs owned_memory)(2 := errs owned_memory 1, 1 := empty_error)\<rparr>) \<and>
   (\<forall>q. name_message_paired
      (errs (owned_memory\<lparr>errs := (errs owned_memory)(2 := errs owned_memory 1, 1 := empty_error)\<rparr>) q))"
proof -
  have h: "\<forall>q. name_message_paired (errs owned_memory q)"
    by (simp add: owned_memory_def name_message_paired_def empty_error_def)
  have m: "dbus_move_error owned_memory 1 (Some 2) =
     Inr (owned_memory\<lparr>errs := (errs owned_memory)(2 := errs owned_memory 1, 1 := empty_error)\<rparr>)"
    by (simp add: dbus_move_error_def dbus_error_is_set_def dbus_error_free_def dbus_error_init_def
          owned_memory_def empty_error_def)
  have "\<forall>q. name_message_paired
      (errs (owned_memory\<lparr>errs := (errs owned_memory)(2 := errs owned_memory 1, 1 := empty_error)\<rparr>) q)"
    using operations_preserve_pairing [OF h, THEN conjunct2, THEN conjunct2, THEN conjunct2,
          THEN conjunct2, THEN spec, THEN mp, OF m] .
  with h m show ?thesis by blast
qed

subsection \<open>Free\<close>

text \<open>The operations that set up an error object leave it initialized.\<close>

lemma init_leaves_initialized:
  assumes "dbus_error_init s (Some p) = Inr s'"
  shows "initialized s' p"
  using assms by (auto simp: dbus_error_init_def initialized_def name_message_paired_def)

lemma set_const_leaves_initialized:
  assumes "dbus_set_error_const N s (Some p) nm msg = Inr s'"
  shows "initialized s' p"
  using assms
  by (auto simp: dbus_set_error_const_def initialized_def name_message_paired_def Let_def
           split: if_splits option.splits)

lemma set_error_leaves_initialized:
  assumes "dbus_set_error N vfmt alloc s (Some p) nm format args = Inr s'"
  shows "initialized s' p"
  using assms
  by (auto simp: dbus_set_error_def dbus_set_error_const_def initialized_def
                 name_message_paired_def Let_def
           split: if_splits option.splits)

lemma free_initialized:
  assumes "initialized s p"
  shows "\<exists>s1. dbus_error_free s p = Inr s1 \<and> name (errs s1 p) = None \<and>
              message (errs s1 p) = None \<and> const_message (errs s1 p)"
proof (cases "const_message (errs s p)")
  case True
  then show ?thesis
    by (simp add: dbus_error_free_def dbus_error_init_def)
next
  case False
  with assms obtain a t where "message (errs s p) = Some (Buf a)" and "blocks s a = Some t"
    by (auto simp: initialized_def split: option.splits cstr.splits)
  with False show ?thesis
    by (simp add: dbus_error_free_def dbus_free_def dbus_error_init_def)
qed

lemma free_of_empty:
  assumes "name (errs s p) = None" and "message (errs s p) = None" and "const_message (errs s p)"
  shows "dbus_error_free s p = Inr s"
proof -
  have "(errs s p)\<lparr>name := None, message := None, const_message := True\<rparr> = errs s p"
    using assms by simp
  then show ?thesis
    using assms(3) by (simp add: dbus_error_free_def dbus_error_init_def)
qed

text \<open>
  C6. For every initialized error object, set or empty, Free returns; afterwards Is-set
  is false, Set-constant with any name and any message returns normally (its
  assertions hold) and leaves the object set, and a second Free changes nothing.
\<close>

theorem free_resets_error:
  assumes "initialized s p"
  shows "\<exists>s1. dbus_error_free s p = Inr s1 \<and>
              dbus_error_is_set s1 (Some p) = Inr False \<and>
              (\<forall>n msg. \<exists>s2. dbus_set_error_const N s1 (Some p) (Some n) msg = Inr s2 \<and>
                              dbus_error_is_set s2 (Some p) = Inr True) \<and>
              dbus_error_free s1 p = Inr s1"
proof -
  from free_initialized [OF assms] obtain s1 where
    f: "dbus_error_free s p = Inr s1" and
    e: "name (errs s1 p) = None" "message (errs s1 p) = None" "const_message (errs s1 p)"
    by blast
  from e have a: "dbus_error_is_set s1 (Some p) = Inr False"
    by (simp add: dbus_error_is_set_def)
  from e have b: "\<forall>n msg. \<exists>s2. dbus_set_error_const N s1 (Some p) (Some n) msg = Inr s2 \<and>
                              dbus_error_is_set s2 (Some p) = Inr True"
    by (simp add: dbus_set_error_const_def dbus_error_is_set_def Let_def)
  from e have c: "dbus_error_free s1 p = Inr s1"
    by (rule free_of_empty)
  from f a b c show ?thesis by blast
qed

theorem free_resets_error_witness:
  "initialized owned_memory 1 \<and>
   (\<exists>s1. dbus_error_free owned_memory 1 = Inr s1 \<and>
              dbus_error_is_set s1 (Some 1) = Inr False \<and>
              (\<forall>n msg. \<exists>s2. dbus_set_error_const sample_names s1 (Some 1) (Some n) msg = Inr s2 \<and>
                              dbus_error_is_set s2 (Some 1) = Inr True) \<and>
              dbus_error_free s1 1 = Inr s1) \<and>
   dbus_error_free owned_memory 1 =
     Inr (owned_memory\<lparr>errs := (errs owned_memory)(1 := empty_error), blocks := Map.empty\<rparr>)"
proof -
  have h: "initialized owned_memory 1"
    by (simp add: initialized_def owned_memory_def name_message_paired_def empty_error_def)
  have v: "dbus_error_free owned_memory 1 =
     Inr (owned_memory\<lparr>errs := (errs owned_memory)(1 := empty_error), blocks := Map.empty\<rparr>)"
    by (simp add: dbus_error_free_def dbus_free_def dbus_error_init_def owned_memory_def
          empty_error_def)
  from h v free_resets_error [OF h, of sample_names] show ?thesis by blast
qed

section \<open>Properties of the entry point\<close>

text \<open>The definitions that an evaluation of the argument loop and of \<open>main\<close> unfolds.\<close>

lemmas parse_defs =
  parse_arg_def record_config_file_def record_addr_fd_def check_two_config_files_def
  check_two_addr_descriptors_def dbus_string_append_def starts_with_def after_equals_def
  usage_def version_def

lemmas main_defs =
  main_def parse_command_line_def resolve_print_addr_fd_def invalid_file_descriptor_def
  publish_address_def run_bus_def sample_parse_int_def

subsection \<open>The token after \<^verbatim>\<open>--print-address\<close>\<close>







subsection \<open>Validation of the descriptor text\<close>

lemma parse_arg_descriptor_requested:
  assumes "parse_arg E st arg = Inr st'" and "addr_fd st \<noteq> [] \<longrightarrow> print_address st"
  shows "addr_fd st' \<noteq> [] \<longrightarrow> print_address st'"
  using assms
  by (auto simp: parse_arg_def record_config_file_def record_addr_fd_def
        check_two_config_files_def check_two_addr_descriptors_def dbus_string_append_def
        usage_def version_def
      split: if_splits)

lemma parse_args_descriptor_requested:
  assumes "parse_args E st args = Inr st'" and "addr_fd st \<noteq> [] \<longrightarrow> print_address st"
  shows "addr_fd st' \<noteq> [] \<longrightarrow> print_address st'"
  using assms
proof (induction args arbitrary: st)
  case Nil
  then show ?case by simp
next
  case (Cons arg rest)
  from Cons.prems(1) obtain st1 where
    one: "parse_arg E st arg = Inr st1" and more: "parse_args E st1 rest = Inr st'"
    by (auto split: sum.splits)
  from one Cons.prems(2) have "addr_fd st1 \<noteq> [] \<longrightarrow> print_address st1"
    by (rule parse_arg_descriptor_requested)
  with more show ?case by (rule Cons.IH)
qed

lemma descriptor_text_requested:
  assumes "parse_command_line E argv = Inr st" and "addr_fd st \<noteq> []"
  shows "print_address st"
proof -
  from assms(1) have
    "parse_args E \<lparr>config_file = [], addr_fd = [], print_address = False, prev_arg = None,
        calls = 2\<rparr> (drop 1 argv) = Inr st"
    by (simp add: parse_command_line_def split: if_splits)
  then have "addr_fd st \<noteq> [] \<longrightarrow> print_address st"
    by (rule parse_args_descriptor_requested) simp
  with assms(2) show ?thesis by simp
qed

text \<open>
  C7, as stated, fails. The test for a missing configuration file comes before the
  descriptor text is looked at: with \<^verbatim>\<open>--print-address=abc\<close> alone the process
  exits with status 1 on the missing-configuration diagnostic and the usage text, and
  nothing quotes \<^verbatim>\<open>abc\<close>. And an empty descriptor text, which does not parse as
  an integer, is not refused: the address goes to descriptor 1.
\<close>

theorem invalid_descriptor_counterexample:
  "main sample_env [''dbus-daemon-1'', ''--print-address=abc''] =
     ([Stderr (''No configuration file specified.'' @ nl), Stderr usage_text], Exit 1) \<and>
   dbus_string_parse_int sample_env [] 0 = None \<and>
   main sample_env [''dbus-daemon-1'', ''--system'', ''--print-address=''] =
     ([Write 1 (''unix:path=/tmp/bus'' @ nl) 19,
       SetSigtermHandler, LoopRun, ContextShutdown, ContextUnref], Exit 0)"
  by (simp add: main_defs parse_defs sample_env_def nl_def)

text \<open>
  C7, amended. When the arguments are accepted with a configuration file and a
  descriptor text that is not empty: if the text does not parse as an integer, or the
  parse stops before the end of the text, or the value is negative or above
  \<^verbatim>\<open>_DBUS_INT_MAX\<close>, the process prints the diagnostic quoting the text and exits
  with status 1; otherwise the parsed value is the publication descriptor.
\<close>

theorem invalid_descriptor_exits:
  assumes "parse_command_line E argv = Inr st" and "config_file st \<noteq> []"
      and "addr_fd st \<noteq> []"
  shows "(dbus_string_parse_int E (addr_fd st) 0 = None \<longrightarrow>
            main E argv =
              ([Stderr (''Invalid file descriptor: '' @ [CHR 0x22] @ addr_fd st @ [CHR 0x22] @ nl)],
               Exit 1)) \<and>
         (\<forall>v e. dbus_string_parse_int E (addr_fd st) 0 = Some (v, e) \<and>
                 (e \<noteq> length (addr_fd st) \<or> v < 0 \<or> v > DBUS_INT_MAX E) \<longrightarrow>
            main E argv =
              ([Stderr (''Invalid file descriptor: '' @ [CHR 0x22] @ addr_fd st @ [CHR 0x22] @ nl)],
               Exit 1)) \<and>
         (\<forall>v. dbus_string_parse_int E (addr_fd st) 0 = Some (v, length (addr_fd st)) \<and>
               0 \<le> v \<and> v \<le> DBUS_INT_MAX E \<longrightarrow>
            resolve_print_addr_fd E st = Inr v)"
proof -
  from assms(1,3) have req: "print_address st"
    by (rule descriptor_text_requested)
  from assms req show ?thesis
    by (auto simp: main_def resolve_print_addr_fd_def invalid_file_descriptor_def)
qed

theorem invalid_descriptor_exits_witness:
  "parse_command_line sample_env [''dbus-daemon-1'', ''--system'', ''--print-address=abc''] =
     Inr \<lparr>config_file = ''/etc/dbus-1/system.conf'', addr_fd = ''abc'', print_address = True,
          prev_arg = Some ''--print-address=abc'', calls = 4\<rparr> \<and>
   dbus_string_parse_int sample_env ''abc'' 0 = None \<and>
   main sample_env [''dbus-daemon-1'', ''--system'', ''--print-address=abc''] =
     ([Stderr (''Invalid file descriptor: '' @ [CHR 0x22] @ ''abc'' @ [CHR 0x22] @ nl)], Exit 1) \<and>
   parse_command_line sample_env [''dbus-daemon-1'', ''--system'', ''--print-address'', ''42''] =
     Inr \<lparr>config_file = ''/etc/dbus-1/system.conf'', addr_fd = ''42'', print_address = True,
          prev_arg = Some ''42'', calls = 4\<rparr> \<and>
   dbus_string_parse_int sample_env ''42'' 0 = Some (42, 2) \<and>
   resolve_print_addr_fd sample_env
     \<lparr>config_file = ''/etc/dbus-1/system.conf'', addr_fd = ''42'', print_address = True,
      prev_arg = Some ''42'', calls = 4\<rparr> = Inr 42"
proof -
  let ?bad = "\<lparr>config_file = ''/etc/dbus-1/system.conf'', addr_fd = ''abc'',
                print_address = True, prev_arg = Some ''--print-address=abc'', calls = 4\<rparr>"
  let ?good = "\<lparr>config_file = ''/etc/dbus-1/system.conf'', addr_fd = ''42'',
                 print_address = True, prev_arg = Some ''42'', calls = 4\<rparr>"
  have p1: "parse_command_line sample_env
      [''dbus-daemon-1'', ''--system'', ''--print-address=abc''] = Inr ?bad"
    by (simp add: parse_command_line_def parse_defs sample_env_def)
  have p2: "parse_command_line sample_env
      [''dbus-daemon-1'', ''--system'', ''--print-address'', ''42''] = Inr ?good"
    by (simp add: parse_command_line_def parse_defs sample_env_def)
  have i1: "dbus_string_parse_int sample_env (addr_fd ?bad) 0 = None"
    by (simp add: sample_env_def sample_parse_int_def)
  have i2: "dbus_string_parse_int sample_env (addr_fd ?good) 0 = Some (42, length (addr_fd ?good)) \<and>
            0 \<le> (42::int) \<and> 42 \<le> DBUS_INT_MAX sample_env"
    by (simp add: sample_env_def sample_parse_int_def)
  have m: "main sample_env [''dbus-daemon-1'', ''--system'', ''--print-address=abc''] =
     ([Stderr (''Invalid file descriptor: '' @ [CHR 0x22] @ addr_fd ?bad @ [CHR 0x22] @ nl)], Exit 1)"
    using invalid_descriptor_exits [OF p1, THEN conjunct1, THEN mp, OF _ _ i1] by simp
  have r: "resolve_print_addr_fd sample_env ?good = Inr 42"
    using invalid_descriptor_exits [OF p2, THEN conjunct2, THEN conjunct2, THEN spec, THEN mp, OF _ _ i2]
    by simp
  from p1 p2 i1 i2 m r show ?thesis by simp
qed

subsection \<open>Publication of the address\<close>

lemma resolved_descriptor:
  assumes "resolve_print_addr_fd E st = Inr fd" and "print_address st"
  shows "0 \<le> fd \<and> (addr_fd st = [] \<longrightarrow> fd = 1)"
  using assms
  by (auto simp: resolve_print_addr_fd_def split: if_splits option.splits)

lemma publish_address_result:
  assumes "mem_ok E k" and "mem_ok E (k + 1)" and "mem_ok E (k + 2)"
  shows "publish_address E k fd (Some a) =
           (if dbus_write E fd (a @ nl) \<noteq> int (length (a @ nl))
            then Inl ([Write fd (a @ nl) (dbus_write E fd (a @ nl)),
                       Stderr (''Failed to print message bus address: '' @ dbus_strerror E @ nl)],
                      Exit 1)
            else Inr (Write fd (a @ nl) (int (length (a @ nl))) #
                      (if fd > 2 then [Close fd] else [])))"
  using assms by (simp add: publish_address_def dbus_string_append_def Let_def)

lemma publish_address_out_of_memory:
  assumes "\<not> (mem_ok E k \<and> mem_ok E (k + 1) \<and> mem_ok E (k + 2))"
  shows "publish_address E k fd (Some a) = Inl ([], Exit 1)"
  using assms by (auto simp: publish_address_def dbus_string_append_def)

lemma run_bus_no_close: "Close d \<notin> set (fst (run_bus E))"
  by (simp add: run_bus_def)

text \<open>
  C8, as stated, fails: the text to write is built with three buffer calls that can run
  out of memory, and when one of them fails the process exits with status 1 before
  any write, although publication is requested and the bus instance is constructed.
\<close>

theorem address_published_counterexample:
  "parse_command_line low_memory_env [''dbus-daemon-1'', ''--session'', ''--print-address''] =
     Inr \<lparr>config_file = ''/etc/dbus-1/session.conf'', addr_fd = [], print_address = True,
          prev_arg = Some ''--print-address'', calls = 3\<rparr> \<and>
   bus_context_new low_memory_env ''/etc/dbus-1/session.conf'' =
     Inr (Some ''unix:path=/tmp/bus'') \<and>
   main low_memory_env [''dbus-daemon-1'', ''--session'', ''--print-address''] = ([], Exit 1)"
  by (simp add: main_defs parse_defs low_memory_env_def sample_env_def)

text \<open>
  C8, amended. When the arguments are accepted with a configuration file and a valid
  descriptor, publication is requested, and the bus instance is constructed with listen
  address \<open>a\<close>: the descriptor is not negative and is 1 when no descriptor text was
  given. When the three buffer calls that build the text succeed, the one write is of
  \<open>a\<close> followed by a newline to that descriptor; a write that returns the full length is
  followed by the close of the descriptor exactly when it is greater than 2, then by
  the event loop; a write that returns anything else ends the process with status 1
  after the diagnostic, with nothing closed. When one of the three buffer calls fails,
  the process exits with status 1 with nothing written and nothing closed. In every
  case only the resolved descriptor is ever closed, and only when it is greater than 2.
\<close>

theorem address_published:
  assumes "parse_command_line E argv = Inr st" and "config_file st \<noteq> []"
      and "print_address st" and "resolve_print_addr_fd E st = Inr fd"
      and "bus_context_new E (config_file st) = Inr (Some a)"
  shows "0 \<le> fd \<and> (addr_fd st = [] \<longrightarrow> fd = 1) \<and>
         (mem_ok E (calls st) \<and> mem_ok E (calls st + 1) \<and> mem_ok E (calls st + 2) \<and>
          dbus_write E fd (a @ nl) = int (length (a @ nl)) \<longrightarrow>
            main E argv =
              (Write fd (a @ nl) (int (length (a @ nl))) #
                 (if fd > 2 then [Close fd] else []) @ fst (run_bus E),
               snd (run_bus E))) \<and>
         (mem_ok E (calls st) \<and> mem_ok E (calls st + 1) \<and> mem_ok E (calls st + 2) \<and>
          dbus_write E fd (a @ nl) \<noteq> int (length (a @ nl)) \<longrightarrow>
            main E argv =
              ([Write fd (a @ nl) (dbus_write E fd (a @ nl)),
                Stderr (''Failed to print message bus address: '' @ dbus_strerror E @ nl)],
               Exit 1)) \<and>
         (\<not> (mem_ok E (calls st) \<and> mem_ok E (calls st + 1) \<and> mem_ok E (calls st + 2)) \<longrightarrow>
            main E argv = ([], Exit 1)) \<and>
         (Close fd \<in> set (fst (main E argv))) =
            (fd > 2 \<and> mem_ok E (calls st) \<and> mem_ok E (calls st + 1) \<and>
             mem_ok E (calls st + 2) \<and> dbus_write E fd (a @ nl) = int (length (a @ nl))) \<and>
         (\<forall>d. Close d \<in> set (fst (main E argv)) \<longrightarrow> d = fd \<and> d > 2)"
proof -
  let ?mem = "mem_ok E (calls st) \<and> mem_ok E (calls st + 1) \<and> mem_ok E (calls st + 2)"
  let ?full = "dbus_write E fd (a @ nl) = int (length (a @ nl))"
  from assms(4,3) have fd: "0 \<le> fd \<and> (addr_fd st = [] \<longrightarrow> fd = 1)"
    by (rule resolved_descriptor)
  have complete: "main E argv =
              (Write fd (a @ nl) (int (length (a @ nl))) #
                 (if fd > 2 then [Close fd] else []) @ fst (run_bus E),
               snd (run_bus E))"
    if "?mem \<and> ?full"
  proof -
    from that have "publish_address E (calls st) fd (Some a) =
        Inr (Write fd (a @ nl) (int (length (a @ nl))) # (if fd > 2 then [Close fd] else []))"
      by (simp add: publish_address_result)
    with assms(1,2,4,5) fd show ?thesis by (simp add: main_def)
  qed
  have short: "main E argv =
              ([Write fd (a @ nl) (dbus_write E fd (a @ nl)),
                Stderr (''Failed to print message bus address: '' @ dbus_strerror E @ nl)],
               Exit 1)"
    if "?mem \<and> \<not> ?full"
  proof -
    from that have "publish_address E (calls st) fd (Some a) =
        Inl ([Write fd (a @ nl) (dbus_write E fd (a @ nl)),
              Stderr (''Failed to print message bus address: '' @ dbus_strerror E @ nl)], Exit 1)"
      by (simp add: publish_address_result)
    with assms(1,2,4,5) fd show ?thesis by (simp add: main_def)
  qed
  have oom: "main E argv = ([], Exit 1)" if "\<not> ?mem"
  proof -
    from that have "publish_address E (calls st) fd (Some a) = Inl ([], Exit 1)"
      by (rule publish_address_out_of_memory)
    with assms(1,2,4,5) fd show ?thesis by (simp add: main_def)
  qed
  have closes: "(Close fd \<in> set (fst (main E argv))) = (fd > 2 \<and> ?mem \<and> ?full)"
  proof (cases ?mem)
    case False
    from oom [OF False] have "main E argv = ([], Exit 1)" .
    with False show ?thesis by auto
  next
    case True
    show ?thesis
    proof (cases ?full)
      case True
      with \<open>?mem\<close> complete show ?thesis by (simp add: run_bus_no_close)
    next
      case False
      with \<open>?mem\<close> short show ?thesis by simp
    qed
  qed
  have only: "\<forall>d. Close d \<in> set (fst (main E argv)) \<longrightarrow> d = fd \<and> d > 2"
  proof (cases ?mem)
    case False
    from oom [OF False] show ?thesis by simp
  next
    case True
    show ?thesis
    proof (cases ?full)
      case True
      with \<open>?mem\<close> complete show ?thesis
        by (auto simp: run_bus_no_close split: if_splits)
    next
      case False
      with \<open>?mem\<close> short show ?thesis by simp
    qed
  qed
  from fd complete short oom closes only show ?thesis by blast
qed

theorem address_published_witness:
  "parse_command_line sample_env [''dbus-daemon-1'', ''--session'', ''--print-address''] =
     Inr \<lparr>config_file = ''/etc/dbus-1/session.conf'', addr_fd = [], print_address = True,
          prev_arg = Some ''--print-address'', calls = 3\<rparr> \<and>
   resolve_print_addr_fd sample_env
     \<lparr>config_file = ''/etc/dbus-1/session.conf'', addr_fd = [], print_address = True,
      prev_arg = Some ''--print-address'', calls = 3\<rparr> = Inr 1 \<and>
   bus_context_new sample_env ''/etc/dbus-1/session.conf'' = Inr (Some ''unix:path=/tmp/bus'') \<and>
   mem_ok sample_env 3 \<and> mem_ok sample_env 4 \<and> mem_ok sample_env 5 \<and>
   dbus_write sample_env 1 (''unix:path=/tmp/bus'' @ nl) = 19 \<and>
   main sample_env [''dbus-daemon-1'', ''--session'', ''--print-address''] =
     ([Write 1 (''unix:path=/tmp/bus'' @ nl) 19,
       SetSigtermHandler, LoopRun, ContextShutdown, ContextUnref], Exit 0) \<and>
   Close 1 \<notin> set (fst (main sample_env [''dbus-daemon-1'', ''--session'', ''--print-address'']))"
proof -
  let ?st = "\<lparr>config_file = ''/etc/dbus-1/session.conf'', addr_fd = [], print_address = True,
               prev_arg = Some ''--print-address'', calls = 3\<rparr>"
  have p: "parse_command_line sample_env [''dbus-daemon-1'', ''--session'', ''--print-address'']
      = Inr ?st"
    by (simp add: parse_command_line_def parse_defs sample_env_def)
  have c: "config_file ?st \<noteq> []" and q: "print_address ?st" by simp_all
  have r: "resolve_print_addr_fd sample_env ?st = Inr 1"
    by (simp add: resolve_print_addr_fd_def)
  have b: "bus_context_new sample_env (config_file ?st) = Inr (Some ''unix:path=/tmp/bus'')"
    by (simp add: sample_env_def)
  have m: "mem_ok sample_env (calls ?st) \<and> mem_ok sample_env (calls ?st + 1) \<and>
           mem_ok sample_env (calls ?st + 2)"
    by (simp add: sample_env_def)
  have w: "dbus_write sample_env 1 (''unix:path=/tmp/bus'' @ nl) =
           int (length (''unix:path=/tmp/bus'' @ nl))"
    by (simp add: sample_env_def)
  note t = address_published [OF p c q r b]
  from t m w have run: "main sample_env [''dbus-daemon-1'', ''--session'', ''--print-address''] =
      (Write 1 (''unix:path=/tmp/bus'' @ nl) (int (length (''unix:path=/tmp/bus'' @ nl))) #
         (if (1::int) > 2 then [Close 1] else []) @ fst (run_bus sample_env),
       snd (run_bus sample_env))"
    by blast
  from t have nc: "Close 1 \<notin> set (fst (main sample_env
      [''dbus-daemon-1'', ''--session'', ''--print-address'']))"
    by simp
  from p r b m w run nc show ?thesis
    by (simp add: run_bus_def sample_env_def nl_def)
qed

subsection \<open>The empty descriptor text\<close>

text \<open>
  C10, as stated, fails: \<^verbatim>\<open>--print-address=\<close> does not behave exactly like
  \<^verbatim>\<open>--print-address\<close>. After a recorded descriptor it is refused as a duplicate
  where the plain flag is accepted, and a token after it is not taken as its
  descriptor.
\<close>

theorem empty_descriptor_counterexample:
  "main sample_env [''dbus-daemon-1'', ''--system'', ''--print-address=5'', ''--print-address=''] =
     ([Stderr (''--print-address specified but printing address to 5 already requested'' @ nl)],
      Exit 1) \<and>
   main sample_env [''dbus-daemon-1'', ''--system'', ''--print-address=5'', ''--print-address''] =
     ([Write 5 (''unix:path=/tmp/bus'' @ nl) 19, Close 5,
       SetSigtermHandler, LoopRun, ContextShutdown, ContextUnref], Exit 0) \<and>
   main sample_env [''dbus-daemon-1'', ''--system'', ''--print-address='', ''7''] =
     ([Stderr usage_text], Exit 1) \<and>
   main sample_env [''dbus-daemon-1'', ''--system'', ''--print-address'', ''7''] =
     ([Write 7 (''unix:path=/tmp/bus'' @ nl) 19, Close 7,
       SetSigtermHandler, LoopRun, ContextShutdown, ContextUnref], Exit 0)"
  by (simp add: main_defs parse_defs sample_env_def nl_def)

lemma parse_args_last:
  "parse_args E st (args @ [arg]) =
     (case parse_args E st args of Inl r \<Rightarrow> Inl r | Inr st' \<Rightarrow> parse_arg E st' arg)"
  by (induction args arbitrary: st) (simp_all split: sum.splits)

lemma parse_command_line_last:
  assumes "argv \<noteq> []"
  shows "parse_command_line E (argv @ [arg]) =
     (case parse_command_line E argv of Inl r \<Rightarrow> Inl r | Inr st \<Rightarrow> parse_arg E st arg)"
proof -
  from assms have "drop 1 (argv @ [arg]) = drop 1 argv @ [arg]"
    by (cases argv) simp_all
  then show ?thesis
    by (simp add: parse_command_line_def parse_args_last)
qed

lemma publish_address_any_count:
  assumes "\<forall>k. mem_ok E k"
  shows "publish_address E k fd a = publish_address E k' fd a"
  using assms by (cases a) (simp_all add: publish_address_def dbus_string_append_def)

lemma resolve_of_fields:
  assumes "addr_fd st1 = addr_fd st2" and "print_address st1 = print_address st2"
  shows "resolve_print_addr_fd E st1 = resolve_print_addr_fd E st2"
  using assms by (simp add: resolve_print_addr_fd_def split: option.splits prod.splits)

lemma main_of_parsed_state:
  assumes p1: "parse_command_line E argv1 = Inr st1"
      and p2: "parse_command_line E argv2 = Inr st2"
      and cf: "config_file st1 = config_file st2" and fd: "addr_fd st1 = addr_fd st2"
      and pa: "print_address st1 = print_address st2" and mem: "\<forall>k. mem_ok E k"
  shows "main E argv1 = main E argv2"
proof -
  have r: "resolve_print_addr_fd E st1 = resolve_print_addr_fd E st2"
    using fd pa by (rule resolve_of_fields)
  have pub: "publish_address E (calls st1) d a = publish_address E (calls st2) d a" for d a
    using mem by (rule publish_address_any_count)
  show ?thesis
    by (simp add: main_def p1 p2 cf r pub split: sum.splits)
qed

text \<open>
  C10, amended. For a state of the loop whose previous token is not
  \<^verbatim>\<open>--config-file\<close>. With no descriptor text recorded and the append succeeding,
  \<^verbatim>\<open>--print-address=\<close> is accepted, requests publication and leaves the descriptor
  text empty, and the descriptor resolves to 1; when the append fails the process exits
  with status 1. Under the same conditions, plain \<^verbatim>\<open>--print-address\<close> that
  does not follow \<^verbatim>\<open>--print-address\<close> leaves the same state apart from the
  remembered previous token and the buffer call it does not make; plain \<^verbatim>\<open>--print-address\<close> that
  follows \<^verbatim>\<open>--print-address\<close> is instead taken as the descriptor text of the
  earlier flag. While the descriptor text is empty, an explicit
  \<^verbatim>\<open>--print-address=D\<close>, or a separate token after \<^verbatim>\<open>--print-address\<close> that is
  none of the forms tested earlier, is accepted with no duplicate diagnostic when its
  append succeeds. With a descriptor text already recorded,
  \<^verbatim>\<open>--print-address=\<close> is refused with the duplicate diagnostic, whereas plain
  \<^verbatim>\<open>--print-address\<close> that does not follow \<^verbatim>\<open>--print-address\<close> is accepted.
  As the last argument after accepted arguments, with no descriptor text recorded, the
  previous token not \<^verbatim>\<open>--print-address\<close> and memory never running out,
  \<^verbatim>\<open>--print-address=\<close> gives the same run of the whole process as plain
  \<^verbatim>\<open>--print-address\<close>.
\<close>

theorem empty_descriptor_accepted:
  assumes "prev_arg st \<noteq> Some ''--config-file''"
  shows "(addr_fd st = [] \<and> mem_ok E (calls st) \<longrightarrow>
            parse_arg E st ''--print-address='' =
              Inr (st\<lparr>print_address := True, prev_arg := Some ''--print-address='',
                      calls := Suc (calls st)\<rparr>) \<and>
            resolve_print_addr_fd E
              (st\<lparr>print_address := True, prev_arg := Some ''--print-address='',
                   calls := Suc (calls st)\<rparr>) = Inr 1) \<and>
         (addr_fd st = [] \<and> \<not> mem_ok E (calls st) \<longrightarrow>
            parse_arg E st ''--print-address='' = Inl ([], Exit 1)) \<and>
         (prev_arg st \<noteq> Some ''--print-address'' \<longrightarrow>
            parse_arg E st ''--print-address'' =
              Inr (st\<lparr>print_address := True, prev_arg := Some ''--print-address''\<rparr>) \<and>
            (addr_fd st = [] \<longrightarrow>
               resolve_print_addr_fd E
                 (st\<lparr>print_address := True, prev_arg := Some ''--print-address''\<rparr>) = Inr 1)) \<and>
         (prev_arg st = Some ''--print-address'' \<longrightarrow>
            parse_arg E st ''--print-address'' =
              (if addr_fd st \<noteq> []
               then Inl ([Stderr (''--print-address specified but printing address to '' @
                                  addr_fd st @ '' already requested'' @ nl)], Exit 1)
               else if mem_ok E (calls st)
               then Inr (st\<lparr>addr_fd := ''--print-address'', print_address := True,
                           prev_arg := Some ''--print-address'', calls := Suc (calls st)\<rparr>)
               else Inl ([], Exit 1))) \<and>
         (\<forall>d. addr_fd st = [] \<and> mem_ok E (calls st) \<longrightarrow>
            parse_arg E st (''--print-address='' @ d) =
              Inr (st\<lparr>addr_fd := d, print_address := True,
                      prev_arg := Some (''--print-address='' @ d), calls := Suc (calls st)\<rparr>)) \<and>
         (\<forall>d. prev_arg st = Some ''--print-address'' \<and> \<not> tested_before_descriptor d \<and>
              addr_fd st = [] \<and> mem_ok E (calls st) \<longrightarrow>
            parse_arg E st d =
              Inr (st\<lparr>addr_fd := d, print_address := True, prev_arg := Some d,
                      calls := Suc (calls st)\<rparr>)) \<and>
         (addr_fd st \<noteq> [] \<longrightarrow>
            parse_arg E st ''--print-address='' =
              Inl ([Stderr (''--print-address specified but printing address to '' @ addr_fd st @
                            '' already requested'' @ nl)], Exit 1)) \<and>
         (\<forall>argv. argv \<noteq> [] \<and> parse_command_line E argv = Inr st \<and> addr_fd st = [] \<and>
                 prev_arg st \<noteq> Some ''--print-address'' \<and> (\<forall>k. mem_ok E k) \<longrightarrow>
            main E (argv @ [''--print-address='']) = main E (argv @ [''--print-address'']))"
proof -
  have eq_form: "(addr_fd st = [] \<and> mem_ok E (calls st) \<longrightarrow>
            parse_arg E st ''--print-address='' =
              Inr (st\<lparr>print_address := True, prev_arg := Some ''--print-address='',
                      calls := Suc (calls st)\<rparr>) \<and>
            resolve_print_addr_fd E
              (st\<lparr>print_address := True, prev_arg := Some ''--print-address='',
                   calls := Suc (calls st)\<rparr>) = Inr 1) \<and>
         (addr_fd st = [] \<and> \<not> mem_ok E (calls st) \<longrightarrow>
            parse_arg E st ''--print-address='' = Inl ([], Exit 1))"
    using assms by (simp add: parse_defs resolve_print_addr_fd_def)
  have plain: "(prev_arg st \<noteq> Some ''--print-address'' \<longrightarrow>
            parse_arg E st ''--print-address'' =
              Inr (st\<lparr>print_address := True, prev_arg := Some ''--print-address''\<rparr>) \<and>
            (addr_fd st = [] \<longrightarrow>
               resolve_print_addr_fd E
                 (st\<lparr>print_address := True, prev_arg := Some ''--print-address''\<rparr>) = Inr 1)) \<and>
         (prev_arg st = Some ''--print-address'' \<longrightarrow>
            parse_arg E st ''--print-address'' =
              (if addr_fd st \<noteq> []
               then Inl ([Stderr (''--print-address specified but printing address to '' @
                                  addr_fd st @ '' already requested'' @ nl)], Exit 1)
               else if mem_ok E (calls st)
               then Inr (st\<lparr>addr_fd := ''--print-address'', print_address := True,
                           prev_arg := Some ''--print-address'', calls := Suc (calls st)\<rparr>)
               else Inl ([], Exit 1)))"
    using assms by (simp add: parse_defs resolve_print_addr_fd_def)
  have later: "(\<forall>d. addr_fd st = [] \<and> mem_ok E (calls st) \<longrightarrow>
            parse_arg E st (''--print-address='' @ d) =
              Inr (st\<lparr>addr_fd := d, print_address := True,
                      prev_arg := Some (''--print-address='' @ d), calls := Suc (calls st)\<rparr>)) \<and>
         (\<forall>d. prev_arg st = Some ''--print-address'' \<and> \<not> tested_before_descriptor d \<and>
              addr_fd st = [] \<and> mem_ok E (calls st) \<longrightarrow>
            parse_arg E st d =
              Inr (st\<lparr>addr_fd := d, print_address := True, prev_arg := Some d,
                      calls := Suc (calls st)\<rparr>)) \<and>
         (addr_fd st \<noteq> [] \<longrightarrow>
            parse_arg E st ''--print-address='' =
              Inl ([Stderr (''--print-address specified but printing address to '' @ addr_fd st @
                            '' already requested'' @ nl)], Exit 1))"
    using assms by (simp add: parse_defs tested_before_descriptor_def)
  have whole: "main E (argv @ [''--print-address='']) = main E (argv @ [''--print-address''])"
    if h: "argv \<noteq> [] \<and> parse_command_line E argv = Inr st \<and> addr_fd st = [] \<and>
           prev_arg st \<noteq> Some ''--print-address'' \<and> (\<forall>k. mem_ok E k)" for argv
  proof -
    from h eq_form plain have
      a: "parse_arg E st ''--print-address='' =
            Inr (st\<lparr>print_address := True, prev_arg := Some ''--print-address='',
                    calls := Suc (calls st)\<rparr>)" and
      b: "parse_arg E st ''--print-address'' =
            Inr (st\<lparr>print_address := True, prev_arg := Some ''--print-address''\<rparr>)"
      by simp_all
    from h a have p1: "parse_command_line E (argv @ [''--print-address='']) =
        Inr (st\<lparr>print_address := True, prev_arg := Some ''--print-address='',
                calls := Suc (calls st)\<rparr>)"
      by (simp add: parse_command_line_last)
    from h b have p2: "parse_command_line E (argv @ [''--print-address'']) =
        Inr (st\<lparr>print_address := True, prev_arg := Some ''--print-address''\<rparr>)"
      by (simp add: parse_command_line_last)
    from h show ?thesis
      by (intro main_of_parsed_state [OF p1 p2]) simp_all
  qed
  from eq_form plain later whole show ?thesis by blast
qed

theorem empty_descriptor_accepted_witness:
  "prev_arg \<lparr>config_file = ''/etc/dbus-1/system.conf'', addr_fd = [], print_address = False,
      prev_arg = Some ''--system'', calls = 3\<rparr> \<noteq> Some ''--config-file'' \<and>
   mem_ok sample_env 3 \<and>
   parse_arg sample_env
     \<lparr>config_file = ''/etc/dbus-1/system.conf'', addr_fd = [], print_address = False,
      prev_arg = Some ''--system'', calls = 3\<rparr> ''--print-address='' =
     Inr \<lparr>config_file = ''/etc/dbus-1/system.conf'', addr_fd = [], print_address = True,
          prev_arg = Some ''--print-address='', calls = 4\<rparr> \<and>
   resolve_print_addr_fd sample_env
     \<lparr>config_file = ''/etc/dbus-1/system.conf'', addr_fd = [], print_address = True,
      prev_arg = Some ''--print-address='', calls = 4\<rparr> = Inr 1 \<and>
   parse_arg sample_env
     \<lparr>config_file = ''/etc/dbus-1/system.conf'', addr_fd = [], print_address = True,
      prev_arg = Some ''--print-address='', calls = 4\<rparr> ''--print-address=7'' =
     Inr \<lparr>config_file = ''/etc/dbus-1/system.conf'', addr_fd = ''7'', print_address = True,
          prev_arg = Some ''--print-address=7'', calls = 5\<rparr> \<and>
   main sample_env [''dbus-daemon-1'', ''--system'', ''--print-address=''] =
     ([Write 1 (''unix:path=/tmp/bus'' @ nl) 19,
       SetSigtermHandler, LoopRun, ContextShutdown, ContextUnref], Exit 0) \<and>
   main sample_env [''dbus-daemon-1'', ''--system'', ''--print-address''] =
     ([Write 1 (''unix:path=/tmp/bus'' @ nl) 19,
       SetSigtermHandler, LoopRun, ContextShutdown, ContextUnref], Exit 0)"
proof -
  let ?st = "\<lparr>config_file = ''/etc/dbus-1/system.conf'', addr_fd = [], print_address = False,
               prev_arg = Some ''--system'', calls = 3\<rparr>"
  let ?st1 = "\<lparr>config_file = ''/etc/dbus-1/system.conf'', addr_fd = [], print_address = True,
                prev_arg = Some ''--print-address='', calls = 4\<rparr>"
  have h: "prev_arg ?st \<noteq> Some ''--config-file''" by simp
  have h1: "prev_arg ?st1 \<noteq> Some ''--config-file''" by simp
  have k: "addr_fd ?st = [] \<and> mem_ok sample_env (calls ?st)"
    by (simp add: sample_env_def)
  have k1: "addr_fd ?st1 = [] \<and> mem_ok sample_env (calls ?st1)"
    by (simp add: sample_env_def)
  have a: "parse_arg sample_env ?st ''--print-address='' = Inr ?st1 \<and>
           resolve_print_addr_fd sample_env ?st1 = Inr 1"
    using empty_descriptor_accepted [OF h, of sample_env, THEN conjunct1, THEN mp, OF k]
    by simp
  have b: "parse_arg sample_env ?st1 ''--print-address=7'' =
     Inr \<lparr>config_file = ''/etc/dbus-1/system.conf'', addr_fd = ''7'', print_address = True,
          prev_arg = Some ''--print-address=7'', calls = 5\<rparr>"
    using empty_descriptor_accepted [OF h1, of sample_env, THEN conjunct2, THEN conjunct2,
        THEN conjunct2, THEN conjunct2, THEN conjunct1, THEN spec, of "''7''", THEN mp, OF k1]
    by simp
  have m: "main sample_env [''dbus-daemon-1'', ''--system'', ''--print-address=''] =
     ([Write 1 (''unix:path=/tmp/bus'' @ nl) 19,
       SetSigtermHandler, LoopRun, ContextShutdown, ContextUnref], Exit 0) \<and>
   main sample_env [''dbus-daemon-1'', ''--system'', ''--print-address''] =
     ([Write 1 (''unix:path=/tmp/bus'' @ nl) 19,
       SetSigtermHandler, LoopRun, ContextShutdown, ContextUnref], Exit 0)"
    by (simp add: main_defs parse_defs sample_env_def nl_def)
  from h k a b m show ?thesis by simp
qed

end
